theory Spec2Isabelle
  imports Complex_Main "HOL-Library.Log_Nat"
begin

section \<open>Values shared by the route handlers\<close>

text \<open>
  Document ids are natural numbers and dates are milliseconds since the epoch.

  A JavaScript number is a binary64 floating-point number. It is modelled by the real it
  denotes, and each arithmetic operation of the handlers rounds its exact result to the
  nearest binary64 number, a tie going to the even significand. \<open>binade a\<close> is the
  exponent \<open>e\<close> with \<open>2^e \<le> a < 2^(e+1)\<close>, so a result \<open>x\<close> is rounded to a multiple
  of \<open>2^(binade \<bar>x\<bar> - 52)\<close>. Overflow, subnormal numbers, NaN and the sign of zero are not
  part of the model: the quantities of the handlers are far from these ranges.
\<close>

type_synonym objectId = nat
type_synonym date = int

definition rne :: "real \<Rightarrow> int" where
  "rne y =
     (let n = \<lfloor>y\<rfloor>; r = y - of_int n
      in if r < 1 / 2 then n else if 1 / 2 < r then n + 1 else if even n then n else n + 1)"

definition binade :: "real \<Rightarrow> int" where
  "binade a = (if 1 \<le> a then bitlen \<lfloor>a\<rfloor> - 1 else - bitlen (\<lceil>1 / a\<rceil> - 1))"

definition round64 :: "real \<Rightarrow> real" where
  "round64 x =
     (if x = 0 then 0
      else let e = binade \<bar>x\<bar> - 52;
               u = (if 0 \<le> e then 2 ^ nat e else 1 / 2 ^ nat (- e))
           in of_int (rne (x / u)) * u)"

text \<open>The operators \<open>+\<close>, \<open>*\<close> and \<open>/\<close> of JavaScript on numbers.\<close>

definition fadd :: "real \<Rightarrow> real \<Rightarrow> real" where
  "fadd x y = round64 (x + y)"

definition fmul :: "real \<Rightarrow> real \<Rightarrow> real" where
  "fmul x y = round64 (x * y)"

definition fdiv :: "real \<Rightarrow> real \<Rightarrow> real" where
  "fdiv x y = round64 (x / y)"

text \<open>
  The responses that are not a success: 404 (\<open>Goal not found\<close>), 400
  (\<open>Cannot update progress on inactive goal\<close>), 400 (\<open>Food with ID ... not found\<close>)
  and the 500 of each handler's \<open>catch\<close>.
\<close>

datatype error = NotFound | InvalidState | ReferenceNotFound objectId | ServerError

section \<open>Documents\<close>

text \<open>
  A notification as the helpers of \<open>routes/goals/goals.js\<close> build it. The Notification
  schema (\<open>models/schemas/Notification.js\<close>) restricts \<open>type\<close> and \<open>relatedEntity.type\<close>
  to the values of an enumeration each.
\<close>

record notification =
  user :: objectId
  title :: string
  message :: string
  type :: string
  relatedEntity :: "string \<times> objectId"

text \<open>
  A milestone of a goal. The Goal schema declares \<open>title\<close>, \<open>value\<close>, \<open>achieved\<close> and
  \<open>achievedDate\<close>. The handler of \<open>routes/goals/goals.js\<close> reads and writes \<open>targetValue\<close>,
  \<open>isCompleted\<close> and \<open>completedAt\<close>, which the schema does not declare: on a document
  read from the collection \<open>targetValue\<close> is \<open>undefined\<close> (\<open>None\<close> here, and every
  comparison with it is false) and \<open>isCompleted\<close> is \<open>undefined\<close>, which \<open>!\<close> reads as
  false.
\<close>

record milestone =
  title :: string
  "value" :: real
  achieved :: bool
  achievedDate :: "date option"
  targetValue :: "real option"
  isCompleted :: bool
  completedAt :: "date option"

record progressEntry =
  date :: date
  "value" :: real
  "notes" :: string
  previousValue :: real

datatype goalStatus = Active | Paused | Completed | Cancelled

text \<open>
  The goal document, with the fields that \<open>routes/goals/goals.js\<close> reads and writes.
  \<open>targetValue\<close> is a number on every goal: \<open>POST /goals\<close> requires one and
  \<open>PUT /goals/:id\<close> cannot remove it. The Goal schema declares neither \<open>progressHistory\<close>
  nor \<open>completedAt\<close>: on a document read from the collection \<open>progressHistory\<close> is
  \<open>undefined\<close> (\<open>None\<close> here) and \<open>completedAt\<close> is \<open>None\<close>. A document with
  \<open>progressHistory = Some history\<close> is the document that the handler and the API
  documentation expect.
\<close>

record goal =
  oid :: objectId
  user :: objectId
  title :: string
  targetValue :: real
  currentValue :: real
  status :: goalStatus
  completedAt :: "date option"
  milestones :: "milestone list"
  progressHistory :: "progressEntry list option"

text \<open>
  The nutrition documents. \<open>nutrition\<close> is the shape of \<open>Food.nutritionPer100g\<close>, of the
  values computed for a food item and of \<open>dailyTotals\<close>. A request's food item carries
  \<open>food\<close>, \<open>quantity\<close> and \<open>unit\<close>; a processed one carries the four computed values
  too, in the field \<open>derived\<close>.
\<close>

record nutrition =
  calories :: real
  protein :: real
  carbohydrates :: real
  fat :: real

record food =
  name :: string
  nutritionPer100g :: nutrition

datatype foodUnit = G | Ml | Oz | Cup | Piece

datatype mealType = Breakfast | Lunch | Dinner | Snack

record foodItem =
  food :: objectId
  quantity :: real
  unit :: foodUnit

record processedFood = foodItem +
  derived :: nutrition

record 'f meal =
  type :: mealType
  foods :: "'f list"
  "notes" :: "string option"

record 'f processedMeal = "'f meal" +
  totalCalories :: real

record waterIntake =
  amount :: real
  waterUnit :: string

record nutritionEntry =
  user :: objectId
  date :: date
  meals :: "processedFood processedMeal list"
  dailyTotals :: nutrition
  waterIntake :: waterIntake

text \<open>
  The collections of the document store that the handlers touch, and the ways a
  \<open>save()\<close> can reject: a rejected save leaves its collection as it was.
\<close>

record store =
  Food :: "objectId \<rightharpoonup> food"
  NutritionEntry :: "nutritionEntry list"
  Goal :: "objectId \<rightharpoonup> goal"
  Notification :: "notification list"

record faults =
  entry_save_rejects :: "nutritionEntry \<Rightarrow> bool"
  notification_save_rejects :: "notification \<Rightarrow> bool"
  goal_save_rejects :: "goal \<Rightarrow> bool"

section \<open>Nutrition entries: the handler of POST /entries (routes/nutrition/nutrition.js)\<close>

text \<open>
  The application mounts \<open>routes/index.js\<close>, which routes \<open>/nutrition\<close> to
  \<open>routes/nutrition/nutrition.js\<close>; the file \<open>routes/routes.js\<close> is not mounted by the application
  and is not modelled.

  The inner loop of the handler, over the food items of one meal: \<open>processedFoods\<close>,
  \<open>mealCalories\<close> and the running \<open>dailyTotals\<close> are the accumulators, and a food id
  that \<open>Food.findById\<close> does not find ends the request (\<open>Inl\<close>).
\<close>

definition zero_totals :: nutrition where
  "zero_totals = \<lparr>calories = 0, protein = 0, carbohydrates = 0, fat = 0\<rparr>"

fun process_foods ::
  "(objectId \<rightharpoonup> food) \<Rightarrow> foodItem list \<Rightarrow> processedFood list \<Rightarrow> real \<Rightarrow> nutrition
     \<Rightarrow> objectId + (processedFood list \<times> real \<times> nutrition)"
where
  "process_foods Foods [] processedFoods mealCalories totals =
     Inr (processedFoods, mealCalories, totals)"
| "process_foods Foods (item # rest) processedFoods mealCalories totals =
     (case Foods (food item) of
        None \<Rightarrow> Inl (food item)
      | Some fd \<Rightarrow>
          (let multiplier = fdiv (quantity item) 100;
               n = \<lparr>calories = fmul (calories (nutritionPer100g fd)) multiplier,
                    protein = fmul (protein (nutritionPer100g fd)) multiplier,
                    carbohydrates = fmul (carbohydrates (nutritionPer100g fd)) multiplier,
                    fat = fmul (fat (nutritionPer100g fd)) multiplier\<rparr>
           in process_foods Foods rest
                (processedFoods @
                   [\<lparr>food = food item, quantity = quantity item, unit = unit item,
                     derived = n\<rparr>])
                (fadd mealCalories (calories n))
                \<lparr>calories = fadd (calories totals) (calories n),
                 protein = fadd (protein totals) (protein n),
                 carbohydrates = fadd (carbohydrates totals) (carbohydrates n),
                 fat = fadd (fat totals) (fat n)\<rparr>))"

text \<open>The outer loop, over the meals of the request.\<close>

fun process_meals ::
  "(objectId \<rightharpoonup> food) \<Rightarrow> foodItem meal list \<Rightarrow> processedFood processedMeal list
     \<Rightarrow> nutrition \<Rightarrow> objectId + (processedFood processedMeal list \<times> nutrition)"
where
  "process_meals Foods [] processedMeals totals = Inr (processedMeals, totals)"
| "process_meals Foods (m # rest) processedMeals totals =
     (case process_foods Foods (foods m) [] 0 totals of
        Inl missing \<Rightarrow> Inl missing
      | Inr r \<Rightarrow>
          process_meals Foods rest
            (processedMeals @
               [\<lparr>type = type m, foods = fst r, notes = notes m, totalCalories = fst (snd r)\<rparr>])
            (snd (snd r)))"

text \<open>
  \<open>NutritionEntry.findOne\<close> with the user and the day of the request, and the save of
  the entry found (in place) or of a new one. The handler answers with the saved entry,
  the food of each line populated; the result here is the saved entry.
\<close>

definition same_day :: "objectId \<Rightarrow> date \<Rightarrow> nutritionEntry \<Rightarrow> bool" where
  "same_day uid entryDate e =
     (user e = uid \<and> entryDate \<le> date e \<and> date e < entryDate + 24 * 60 * 60 * 1000)"

fun replace_first :: "('a \<Rightarrow> bool) \<Rightarrow> 'a \<Rightarrow> 'a list \<Rightarrow> 'a list" where
  "replace_first P y [] = []"
| "replace_first P y (x # xs) = (if P x then y # xs else x # replace_first P y xs)"

definition post_entries ::
  "faults \<Rightarrow> objectId \<Rightarrow> date \<Rightarrow> foodItem meal list \<Rightarrow> waterIntake option \<Rightarrow> store
     \<Rightarrow> (error + nutritionEntry) \<times> store"
where
  "post_entries fl uid entryDate ms water db =
     (case process_meals (Food db) ms [] zero_totals of
        Inl missing \<Rightarrow> (Inl (ReferenceNotFound missing), db)
      | Inr r \<Rightarrow>
          (let entry =
                 (case find (same_day uid entryDate) (NutritionEntry db) of
                    Some existingEntry \<Rightarrow>
                      existingEntry\<lparr>meals := fst r, dailyTotals := snd r,
                        waterIntake := (case water of Some w \<Rightarrow> w
                                        | None \<Rightarrow> waterIntake existingEntry)\<rparr>
                  | None \<Rightarrow>
                      \<lparr>user = uid, date = entryDate, meals = fst r, dailyTotals = snd r,
                       waterIntake = (case water of Some w \<Rightarrow> w
                                      | None \<Rightarrow> \<lparr>amount = 0, waterUnit = ''ml''\<rparr>)\<rparr>)
           in if entry_save_rejects fl entry then (Inl ServerError, db)
              else
                (Inr entry,
                 db\<lparr>NutritionEntry :=
                      (case find (same_day uid entryDate) (NutritionEntry db) of
                         Some existingEntry \<Rightarrow>
                           replace_first (same_day uid entryDate) entry (NutritionEntry db)
                       | None \<Rightarrow> NutritionEntry db @ [entry])\<rparr>)))"

section \<open>Goals: store operations\<close>

definition Goal_findOne :: "store \<Rightarrow> objectId \<Rightarrow> objectId \<Rightarrow> goal option" where
  "Goal_findOne db gid uid =
     (case Goal db gid of
        None \<Rightarrow> None
      | Some g \<Rightarrow> if oid g = gid \<and> goal.user g = uid then Some g else None)"

definition goal_save :: "faults \<Rightarrow> goal \<Rightarrow> store \<Rightarrow> store option" where
  "goal_save fl g db =
     (if goal_save_rejects fl g then None
      else Some (db\<lparr>Goal := (Goal db)(oid g \<mapsto> g)\<rparr>))"

definition notification_save :: "faults \<Rightarrow> notification \<Rightarrow> store \<Rightarrow> store option" where
  "notification_save fl n db =
     (if notification_save_rejects fl n then None
      else Some (db\<lparr>Notification := Notification db @ [n]\<rparr>))"

text \<open>
  The enumerations of the Notification schema: \<open>save()\<close> rejects a notification whose
  \<open>type\<close> or whose \<open>relatedEntity.type\<close> is none of the listed values.
\<close>

definition Notification_validate :: "notification \<Rightarrow> bool" where
  "Notification_validate n =
     (notification.type n \<in> set [''workout-reminder'', ''meal-reminder'', ''goal-achievement'',
                                  ''milestone-reached'', ''new-follower'', ''workout-shared'',
                                  ''system-update'', ''other'']
      \<and> fst (relatedEntity n) \<in> set [''workout'', ''goal'', ''user'', ''nutrition''])"

section \<open>Goal progress: the helper functions\<close>

definition calculateGoalProgress :: "goal \<Rightarrow> real" where
  "calculateGoalProgress g =
     (if goal.targetValue g = 0 then 0
      else min (fmul (fdiv (currentValue g) (goal.targetValue g)) 100) 100)"

text \<open>
  \<open>goal.milestones.forEach\<close>: the milestones are updated in place and the completed
  ones pushed to \<open>completedMilestones\<close>; \<open>now\<close> is what \<open>new Date()\<close> returns.
\<close>

fun milestones_forEach ::
  "date \<Rightarrow> real \<Rightarrow> real \<Rightarrow> milestone list \<Rightarrow> milestone list \<Rightarrow> milestone list \<times> milestone list"
where
  "milestones_forEach now prevValue newValue [] completedMilestones = ([], completedMilestones)"
| "milestones_forEach now prevValue newValue (m # ms) completedMilestones =
     (if \<not> isCompleted m
          \<and> (case milestone.targetValue m of
                None \<Rightarrow> False
              | Some t \<Rightarrow> prevValue < t \<and> newValue \<ge> t)
      then
        (let m' = m\<lparr>isCompleted := True, milestone.completedAt := Some now\<rparr>;
             r = milestones_forEach now prevValue newValue ms (completedMilestones @ [m'])
         in (m' # fst r, snd r))
      else
        (let r = milestones_forEach now prevValue newValue ms completedMilestones
         in (m # fst r, snd r)))"

definition checkMilestoneCompletion ::
  "date \<Rightarrow> goal \<Rightarrow> real \<Rightarrow> real \<Rightarrow> goal \<times> milestone list"
where
  "checkMilestoneCompletion now g prevValue newValue =
     (let r = milestones_forEach now prevValue newValue (milestones g) []
      in (g\<lparr>milestones := fst r\<rparr>, snd r))"

definition checkGoalCompletion :: "goal \<Rightarrow> bool" where
  "checkGoalCompletion g = (currentValue g \<ge> goal.targetValue g)"

definition handleGoalCompletion :: "faults \<Rightarrow> goal \<Rightarrow> store \<Rightarrow> store option" where
  \<open>handleGoalCompletion fl g db =
     notification_save fl
       \<lparr>notification.user = goal.user g,
        notification.title = ''Goal Completed! '' @ [CHR 0xF0, CHR 0x9F, CHR 0x8E, CHR 0x89],
        message = ''Congratulations! You've completed your goal: '' @ goal.title g,
        notification.type = ''achievement'',
        relatedEntity = (''Goal'', oid g)\<rparr> db\<close>

definition createMilestoneNotification ::
  "faults \<Rightarrow> goal \<Rightarrow> milestone \<Rightarrow> store \<Rightarrow> store option"
where
  \<open>createMilestoneNotification fl g m db =
     notification_save fl
       \<lparr>notification.user = goal.user g,
        notification.title = ''Milestone Achieved! '' @ [CHR 0xF0, CHR 0x9F, CHR 0x8C, CHR 0x9F],
        message = ''You've reached a milestone: '' @ milestone.title m @ '' for goal "''
                  @ goal.title g @ ''"'',
        notification.type = ''milestone'',
        relatedEntity = (''Goal'', oid g)\<rparr> db\<close>

text \<open>
  The loop over \<open>completedMilestones\<close> after the goal is saved: it stops at the first
  notification whose save rejects, with the notifications created so far in the store.
\<close>

fun notify_milestones :: "faults \<Rightarrow> goal \<Rightarrow> milestone list \<Rightarrow> store \<Rightarrow> bool \<times> store" where
  "notify_milestones fl g [] db = (True, db)"
| "notify_milestones fl g (m # ms) db =
     (case createMilestoneNotification fl g m db of
        None \<Rightarrow> (False, db)
      | Some db' \<Rightarrow> notify_milestones fl g ms db')"

section \<open>Goal progress: the handler of POST /:id/progress\<close>

record progressResponse =
  res_goal :: goal
  progressPercentage :: real
  completedMilestones :: "milestone list"
  isGoalCompleted :: bool

text \<open>
  The entry pushed to \<open>goal.progressHistory\<close>: \<open>date\<close> and \<open>notes\<close> are optional in
  the request body, \<open>previousValue\<close> is the goal's current value when the handler starts.
\<close>

definition progressEntry_of :: "date \<Rightarrow> goal \<Rightarrow> real \<Rightarrow> string option \<Rightarrow> date option \<Rightarrow> progressEntry" where
  "progressEntry_of now g v ns d =
     \<lparr>progressEntry.date = (case d of Some d' \<Rightarrow> d' | None \<Rightarrow> now),
      value = v,
      progressEntry.notes = (case ns of Some n \<Rightarrow> n | None \<Rightarrow> []),
      previousValue = currentValue g\<rparr>"

text \<open>
  The handler. After the 404 and the 400 it sets \<open>currentValue\<close> and calls
  \<open>goal.progressHistory.push\<close>: on a document without the property the call throws and the
  \<open>catch\<close> answers 500, nothing being saved. No call of the helpers is wrapped in a
  \<open>try\<close> of its own, so a notification whose save rejects ends the request with the 500
  too, with what was saved before it in the store.
\<close>

definition update_progress ::
  "faults \<Rightarrow> date \<Rightarrow> objectId \<Rightarrow> objectId \<Rightarrow> real \<Rightarrow> string option \<Rightarrow> date option
     \<Rightarrow> store \<Rightarrow> (error + progressResponse) \<times> store"
where
  "update_progress fl now uid gid v ns d db =
     (case Goal_findOne db gid uid of
        None \<Rightarrow> (Inl NotFound, db)
      | Some g \<Rightarrow>
          if status g \<noteq> Active then (Inl InvalidState, db)
          else
           (case progressHistory g of
              None \<Rightarrow> (Inl ServerError, db)
            | Some history \<Rightarrow>
           (let prevValue = currentValue g;
                g1 = g\<lparr>currentValue := v\<rparr>;
                g2 = g1\<lparr>progressHistory := Some (history @ [progressEntry_of now g v ns d])\<rparr>;
                r = checkMilestoneCompletion now g2 prevValue v;
                g3 = fst r;
                completed = snd r;
                goalCompleted = checkGoalCompletion g3;
                g4 = (if goalCompleted \<and> status g3 = Active
                      then g3\<lparr>status := Completed, goal.completedAt := Some now\<rparr> else g3)
            in
             (case (if goalCompleted \<and> status g3 = Active
                    then handleGoalCompletion fl g4 db else Some db) of
                None \<Rightarrow> (Inl ServerError, db)
              | Some db1 \<Rightarrow>
                  (case goal_save fl g4 db1 of
                     None \<Rightarrow> (Inl ServerError, db1)
                   | Some db2 \<Rightarrow>
                       (let r3 = notify_milestones fl g4 completed db2 in
                          if \<not> fst r3 then (Inl ServerError, snd r3)
                          else
                            (Inr \<lparr>res_goal = g4,
                                  progressPercentage = calculateGoalProgress g4,
                                  completedMilestones = completed,
                                  isGoalCompleted = goalCompleted\<rparr>, snd r3)))))))"

text \<open>
  The goal as it is in memory when \<open>goal.save()\<close> is reached: the new current value, the
  pushed history entry, the milestones as the loop leaves them and the completion of the
  goal, which the handler applies last.
\<close>

definition saved_goal :: "date \<Rightarrow> goal \<Rightarrow> real \<Rightarrow> string option \<Rightarrow> date option \<Rightarrow> goal" where
  "saved_goal now g v ns d =
     (let g3 = g\<lparr>currentValue := v,
                 progressHistory :=
                   map_option (\<lambda>history. history @ [progressEntry_of now g v ns d])
                     (progressHistory g),
                 milestones := fst (milestones_forEach now (currentValue g) v (milestones g) [])\<rparr>
      in if goal.targetValue g \<le> v \<and> status g = Active
         then g3\<lparr>status := Completed, goal.completedAt := Some now\<rparr> else g3)"

section \<open>Vocabulary of the statements about nutrition entries\<close>





definition first_missing :: "(objectId \<rightharpoonup> food) \<Rightarrow> foodItem list \<Rightarrow> objectId option" where
  "first_missing Foods items = find (\<lambda>i. Foods i = None) (map food items)"

section \<open>Example data\<close>

text \<open>
  An environment where every save succeeds, and one where a save rejects exactly the
  notifications that the Notification schema does not accept.
\<close>

definition no_faults :: faults where
  "no_faults =
     \<lparr>entry_save_rejects = (\<lambda>e. False), notification_save_rejects = (\<lambda>n. False),
      goal_save_rejects = (\<lambda>g. False)\<rparr>"

definition schema_faults :: faults where
  "schema_faults =
     \<lparr>entry_save_rejects = (\<lambda>e. False),
      notification_save_rejects = (\<lambda>n. \<not> Notification_validate n),
      goal_save_rejects = (\<lambda>g. False)\<rparr>"

text \<open>
  A goal of target 100 with the properties that the handler expects: milestones with a
  \<open>targetValue\<close> of 50 and of 80, and a progress history. A store with this goal and four
  foods: an apple (52 kcal, 0.3 g protein, 14 g carbohydrates and 0.2 g fat per 100 g) and
  three drinks of 0.1, 0.2 and 0.3 kcal per 100 ml; the decimal fractions are the binary64
  numbers nearest to them.
\<close>

definition ex_goal :: goal where
  "ex_goal =
     \<lparr>oid = 1, goal.user = 7, title = ''Run'', targetValue = 100, currentValue = 0, status = Active,
      completedAt = None,
      milestones =
        [\<lparr>milestone.title = ''Half'', milestone.value = 50, achieved = False, achievedDate = None,
          milestone.targetValue = Some 50, isCompleted = False, milestone.completedAt = None\<rparr>,
         \<lparr>milestone.title = ''Most'', milestone.value = 80, achieved = False, achievedDate = None,
          milestone.targetValue = Some 80, isCompleted = False, milestone.completedAt = None\<rparr>],
      progressHistory = Some []\<rparr>"

definition ex_store :: store where
  "ex_store =
     \<lparr>Food =
        [1 \<mapsto> \<lparr>name = ''Apple'',
                nutritionPer100g = \<lparr>calories = 52, protein = round64 (3 / 10), carbohydrates = 14,
                                    fat = round64 (2 / 10)\<rparr>\<rparr>,
         2 \<mapsto> \<lparr>name = ''Broth'',
                nutritionPer100g = \<lparr>calories = round64 (1 / 10), protein = 0, carbohydrates = 0,
                                    fat = 0\<rparr>\<rparr>,
         3 \<mapsto> \<lparr>name = ''Tea'',
                nutritionPer100g = \<lparr>calories = round64 (2 / 10), protein = 0, carbohydrates = 0,
                                    fat = 0\<rparr>\<rparr>,
         4 \<mapsto> \<lparr>name = ''Coffee'',
                nutritionPer100g = \<lparr>calories = round64 (3 / 10), protein = 0, carbohydrates = 0,
                                    fat = 0\<rparr>\<rparr>],
      NutritionEntry = [], Goal = [1 \<mapsto> ex_goal], Notification = []\<rparr>"

text \<open>The same store with the goal already completed.\<close>

definition ex_store_completed :: store where
  "ex_store_completed =
     ex_store\<lparr>Goal := [1 \<mapsto> ex_goal\<lparr>currentValue := 100, status := Completed\<rparr>]\<rparr>"

text \<open>
  A goal as the Goal collection holds it: the paths of the Goal schema only, so a milestone
  with its \<open>value\<close> and no \<open>targetValue\<close>, and no progress history. The store with this
  goal.
\<close>

definition schema_goal :: goal where
  "schema_goal =
     \<lparr>oid = 1, goal.user = 7, title = ''Run'', targetValue = 100, currentValue = 0, status = Active,
      completedAt = None,
      milestones =
        [\<lparr>milestone.title = ''Half'', milestone.value = 50, achieved = False, achievedDate = None,
          milestone.targetValue = None, isCompleted = False, milestone.completedAt = None\<rparr>],
      progressHistory = None\<rparr>"

definition schema_store :: store where
  "schema_store = ex_store\<lparr>Goal := [1 \<mapsto> schema_goal]\<rparr>"





definition ex_lunch_missing :: "foodItem meal list" where
  "ex_lunch_missing =
     [\<lparr>type = Lunch,
       foods = [\<lparr>food = 1, quantity = 100, unit = G\<rparr>, \<lparr>food = 9, quantity = 50, unit = G\<rparr>],
       notes = None\<rparr>]"

section \<open>Numbers: auxiliary facts\<close>

text \<open>\<open>binade a\<close> is the exponent of the power of two at or below \<open>a\<close>.\<close>

lemma bitlen_pos: "0 < n \<Longrightarrow> 0 < bitlen n"
proof (rule ccontr)
  assume n: "0 < n" and "\<not> 0 < bitlen n"
  then have "nat (bitlen n) = 0" by simp
  with bitlen_bounds[OF n] have "n < 1" by simp
  with n show False by simp
qed

lemma binade_bounds:
  assumes "0 < a"
  shows "2 powi (binade a) \<le> a \<and> a < 2 powi (binade a + 1)"
proof (cases "1 \<le> a")
  case True
  let ?n = "\<lfloor>a\<rfloor>"
  from True have n: "0 < ?n" by linarith
  from bitlen_bounds[OF n] have lo: "2 ^ nat (bitlen ?n - 1) \<le> ?n" and hi: "?n < 2 ^ nat (bitlen ?n)"
    by auto
  from n have b: "0 < bitlen ?n" by (rule bitlen_pos)
  have e: "binade a = bitlen ?n - 1" using True by (simp add: binade_def)
  have "(2::real) powi (bitlen ?n - 1) = 2 ^ nat (bitlen ?n - 1)"
    using b by (simp add: power_int_def)
  also have "\<dots> = of_int (2 ^ nat (bitlen ?n - 1))" by simp
  also have "\<dots> \<le> of_int ?n" using lo by (simp only: of_int_le_iff)
  also have "\<dots> \<le> a" by simp
  finally have 1: "2 powi (binade a) \<le> a" unfolding e .
  from hi have "?n + 1 \<le> 2 ^ nat (bitlen ?n)" by simp
  then have "of_int (?n + 1) \<le> (of_int (2 ^ nat (bitlen ?n)) :: real)" by (simp only: of_int_le_iff)
  then have A: "of_int ?n + 1 \<le> (2 ^ nat (bitlen ?n) :: real)" by simp
  have B: "a < of_int ?n + 1" by linarith
  from A B have "a < 2 ^ nat (bitlen ?n)" by linarith
  moreover have "(2::real) powi (bitlen ?n - 1 + 1) = 2 ^ nat (bitlen ?n)"
    using b by (simp add: power_int_def)
  ultimately have 2: "a < 2 powi (binade a + 1)" unfolding e by simp
  from 1 2 show ?thesis by simp
next
  case False
  let ?c = "\<lceil>1 / a\<rceil>"
  let ?k = "bitlen (?c - 1)"
  from False assms have y: "1 < 1 / a" by simp
  then have c: "0 < ?c - 1" by linarith
  from bitlen_bounds[OF c] have lo: "2 ^ nat (?k - 1) \<le> ?c - 1" and hi: "?c - 1 < 2 ^ nat ?k"
    by auto
  from c have k: "0 < ?k" by (rule bitlen_pos)
  have e: "binade a = - ?k" using False by (simp add: binade_def)
  from hi have "?c \<le> 2 ^ nat ?k" by simp
  then have "of_int ?c \<le> (of_int (2 ^ nat ?k) :: real)" by (simp only: of_int_le_iff)
  then have A: "of_int ?c \<le> (2 ^ nat ?k :: real)" by simp
  have B: "1 / a \<le> of_int ?c" by linarith
  from A B have "1 / a \<le> 2 ^ nat ?k" by linarith
  with assms have "1 / 2 ^ nat ?k \<le> a"
    by (simp add: field_simps)
  moreover have "(2::real) powi (- ?k) = 1 / 2 ^ nat ?k"
    using k by (simp add: power_int_def field_simps)
  ultimately have 1: "2 powi (binade a) \<le> a" unfolding e by simp
  have "(of_int (2 ^ nat (?k - 1)) :: real) \<le> of_int (?c - 1)" using lo by (simp only: of_int_le_iff)
  then have A': "(2 ^ nat (?k - 1) :: real) \<le> of_int ?c - 1" by simp
  have B': "of_int ?c - 1 < 1 / a" by linarith
  from A' B' have "2 ^ nat (?k - 1) < 1 / a" by linarith
  with assms have "a < 1 / 2 ^ nat (?k - 1)"
    by (simp add: field_simps)
  moreover have "(2::real) powi (- ?k + 1) = 1 / 2 ^ nat (?k - 1)"
  proof (cases "?k = 1")
    case True
    then show ?thesis by simp
  next
    case False
    with k have "- ?k + 1 < 0" by simp
    moreover have "nat (- (- ?k + 1)) = nat (?k - 1)" by simp
    ultimately show ?thesis by (simp add: power_int_def field_simps)
  qed
  ultimately have 2: "a < 2 powi (binade a + 1)" unfolding e by simp
  from 1 2 show ?thesis by simp
qed

text \<open>
  \<open>round64 x\<close> is a significand of 53 bits times the unit of the binade of \<open>x\<close>, at most
  half a unit away from \<open>x\<close>.
\<close>

lemma rne_nearest: "\<bar>of_int (rne y) - y\<bar> \<le> 1 / 2"
  unfolding rne_def Let_def by (auto simp: abs_le_iff)

lemma round64_unit:
  "round64 x = (if x = 0 then 0
                else of_int (rne (x / 2 powi (binade \<bar>x\<bar> - 52))) * 2 powi (binade \<bar>x\<bar> - 52))"
proof -
  have "(if 0 \<le> e then 2 ^ nat e else 1 / 2 ^ nat (- e)) = (2::real) powi e" for e :: int
    by (simp add: power_int_def field_simps)
  then show ?thesis
    by (simp add: round64_def Let_def)
qed

lemma round64_error:
  assumes "x \<noteq> 0"
  shows "\<bar>round64 x - x\<bar> \<le> 2 powi (binade \<bar>x\<bar> - 53)"
proof -
  let ?u = "(2::real) powi (binade \<bar>x\<bar> - 52)"
  have u: "0 < ?u" by simp
  have "round64 x - x = (of_int (rne (x / ?u)) - x / ?u) * ?u"
    using assms u by (simp add: round64_unit field_simps)
  then have "\<bar>round64 x - x\<bar> = \<bar>of_int (rne (x / ?u)) - x / ?u\<bar> * ?u"
    using u by (simp add: abs_mult)
  also have "\<dots> \<le> (1 / 2) * ?u"
    using rne_nearest[of "x / ?u"] u by (intro mult_right_mono) simp_all
  also have "\<dots> = 2 powi (binade \<bar>x\<bar> - 53)"
    by (simp add: power_int_diff)
  finally show ?thesis .
qed

lemma round64_significand:
  assumes "x \<noteq> 0"
  shows "2 ^ 52 \<le> \<bar>rne (x / 2 powi (binade \<bar>x\<bar> - 52))\<bar>
       \<and> \<bar>rne (x / 2 powi (binade \<bar>x\<bar> - 52))\<bar> \<le> 2 ^ 53"
proof -
  let ?b = "binade \<bar>x\<bar>"
  let ?u = "(2::real) powi (?b - 52)"
  let ?y = "x / ?u"
  let ?n = "rne ?y"
  have u: "0 < ?u" by simp
  from assms have "0 < \<bar>x\<bar>" by simp
  from binade_bounds[OF this] have lo: "2 powi ?b \<le> \<bar>x\<bar>" and hi: "\<bar>x\<bar> < 2 powi (?b + 1)"
    by auto
  have e1: "(2::real) powi ?b = 2 ^ 52 * ?u"
    by (simp add: power_int_diff)
  have e2: "(2::real) powi (?b + 1) = 2 ^ 53 * ?u"
    by (simp add: power_int_diff power_int_add)
  have ay: "\<bar>?y\<bar> = \<bar>x\<bar> / ?u" using u by (simp add: abs_divide)
  from lo e1 u have ylo: "2 ^ 52 \<le> \<bar>?y\<bar>"
    unfolding ay by (simp add: pos_le_divide_eq)
  from hi e2 u have yhi: "\<bar>?y\<bar> < 2 ^ 53"
    unfolding ay by (simp add: pos_divide_less_eq)
  from rne_nearest[of ?y] have n: "\<bar>of_int ?n - ?y\<bar> \<le> 1 / 2" .
  from n ylo have "(2 ^ 52 - 1 :: real) < \<bar>of_int ?n\<bar>" by linarith
  then have "(of_int (2 ^ 52 - 1) :: real) < of_int \<bar>?n\<bar>" by simp
  then have "2 ^ 52 - 1 < \<bar>?n\<bar>" by (simp only: of_int_less_iff)
  then have 1: "2 ^ 52 \<le> \<bar>?n\<bar>" by simp
  from n yhi have "\<bar>of_int ?n\<bar> < (2 ^ 53 + 1 :: real)" by linarith
  then have "(of_int \<bar>?n\<bar> :: real) < of_int (2 ^ 53 + 1)" by simp
  then have "\<bar>?n\<bar> < 2 ^ 53 + 1" by (simp only: of_int_less_iff)
  then have 2: "\<bar>?n\<bar> \<le> 2 ^ 53" by simp
  from 1 2 show ?thesis by simp
qed

text \<open>
  Some values: the double 0.1; 0.1 + 0.2, which is 0.30000000000000004; ties, which go to
  the even significand.
\<close>

lemma round64_tenth: "round64 (1 / 10) = 3602879701896397 / 36028797018963968"
  by code_simp

lemma fadd_tenths:
  "fadd (round64 (1 / 10)) (round64 (2 / 10)) = 1351079888211149 / 4503599627370496"
  by code_simp

lemma round64_tie_down: "round64 (2 ^ 53 + 1) = 2 ^ 53"
  by code_simp

lemma round64_tie_up: "round64 (2 ^ 53 + 3) = 2 ^ 53 + 4"
  by code_simp

lemma round64_tie_negative: "round64 (- (2 ^ 53 + 3)) = - (2 ^ 53 + 4)"
  by code_simp

section \<open>Nutrition entries: auxiliary facts\<close>

text \<open>
  The loops stop at the first food id that is not found, and otherwise return one line per
  item and one meal per meal of the request, with the sums that they accumulated.
\<close>

lemma process_foods_missing:
  "first_missing Foods items = Some i \<Longrightarrow> process_foods Foods items pf mc t = Inl i"
  by (induction items arbitrary: pf mc t)
     (auto simp: first_missing_def Let_def split: option.splits if_splits)


lemma process_foods_found:
  "first_missing Foods items = None \<Longrightarrow> \<exists>r. process_foods Foods items pf mc t = Inr r"
  by (induction items arbitrary: pf mc t)
     (auto simp: first_missing_def Let_def split: option.splits if_splits)

lemma first_missing_append:
  "first_missing Foods (xs @ ys) =
     (case first_missing Foods xs of Some i \<Rightarrow> Some i | None \<Rightarrow> first_missing Foods ys)"
  by (induction xs) (simp_all add: first_missing_def)

lemma process_meals_missing:
  "first_missing Foods (concat (map foods ms)) = Some i \<Longrightarrow> process_meals Foods ms pm t = Inl i"
proof (induction ms arbitrary: pm t)
  case Nil
  then show ?case by (simp add: first_missing_def)
next
  case (Cons m ms)
  show ?case
  proof (cases "first_missing Foods (foods m)")
    case None
    with Cons.prems have rest: "first_missing Foods (concat (map foods ms)) = Some i"
      by (simp add: first_missing_append)
    from process_foods_found[OF None, of "[]" 0 t] obtain r
      where "process_foods Foods (foods m) [] 0 t = Inr r" by auto
    then show ?thesis
      by (simp add: Cons.IH[OF rest])
  next
    case (Some j)
    with Cons.prems have "j = i" by (simp add: first_missing_append)
    with Some show ?thesis by (simp add: process_foods_missing)
  qed
qed




lemma find_Some_holds: "find P xs = Some x \<Longrightarrow> P x"
  by (induction xs) (auto split: if_splits)

lemma post_entries_missing:
  "first_missing (Food db) (concat (map foods ms)) = Some i \<Longrightarrow>
   post_entries fl uid entryDate ms water db = (Inl (ReferenceNotFound i), db)"
  by (simp add: post_entries_def process_meals_missing)


lemma process_meals_found:
  "first_missing Foods (concat (map foods ms)) = None \<Longrightarrow>
   \<exists>r. process_meals Foods ms pm t = Inr r"
proof (induction ms arbitrary: pm t)
  case Nil
  then show ?case by simp
next
  case (Cons m ms)
  from Cons.prems have here: "first_missing Foods (foods m) = None"
    and rest: "first_missing Foods (concat (map foods ms)) = None"
    by (auto simp: first_missing_append split: option.splits)
  from process_foods_found[OF here, of "[]" 0 t] obtain r
    where "process_foods Foods (foods m) [] 0 t = Inr r" by auto
  with Cons.IH[OF rest] show ?case by simp
qed

text \<open>A request whose food ids are all found is answered with an entry when its save is accepted.\<close>

lemma post_entries_accepted:
  assumes "first_missing (Food db) (concat (map foods ms)) = None"
      and "\<And>e. \<not> entry_save_rejects fl e"
  shows "\<exists>e db'. post_entries fl uid entryDate ms water db = (Inr e, db')"
proof -
  from process_meals_found[OF assms(1), of "[]" zero_totals] obtain r
    where "process_meals (Food db) ms [] zero_totals = Inr r" by auto
  with assms(2) show ?thesis
    by (simp add: post_entries_def Let_def)
qed

lemma find_exists: "\<exists>x\<in>set xs. P x \<Longrightarrow> \<exists>y. find P xs = Some y"
  by (cases "find P xs") (auto simp: find_None_iff)

section \<open>Nutrition entries: the derived fields of a food item\<close>




section \<open>Nutrition entries: a food id that is not found\<close>

text \<open>
  C3. When a food item of the request has an id that is not in the Food collection, the
  request is answered with the 400 that names the first such id, and the store is left as
  it was, whatever the other items are and whatever the saves would do.
\<close>

theorem C3_missing_food:
  assumes "\<exists>item \<in> set (concat (map foods ms)). Food db (food item) = None"
  shows "\<exists>i. first_missing (Food db) (concat (map foods ms)) = Some i
            \<and> Food db i = None
            \<and> post_entries fl uid entryDate ms water db = (Inl (ReferenceNotFound i), db)"
proof -
  from assms have "\<exists>x \<in> set (map food (concat (map foods ms))). Food db x = None"
    by auto
  from find_exists[of _ "\<lambda>i. Food db i = None", OF this]
  obtain i where i: "first_missing (Food db) (concat (map foods ms)) = Some i"
    by (auto simp: first_missing_def)
  then have "Food db i = None"
    unfolding first_missing_def by (rule find_Some_holds)
  with i post_entries_missing[OF i] show ?thesis by blast
qed

text \<open>
  Witness for C3: a lunch of 100 g of apple, which is in the store, and of 50 g of the food
  9, which is not.
\<close>

theorem C3_missing_food_witness:
  "post_entries no_faults 7 1000 ex_lunch_missing None ex_store =
     (Inl (ReferenceNotFound 9), ex_store)"
proof -
  have "\<exists>item \<in> set (concat (map foods ex_lunch_missing)). Food ex_store (food item) = None"
    by (simp add: ex_lunch_missing_def ex_store_def)
  from C3_missing_food[OF this, of no_faults 7 1000 None]
  obtain i where i: "first_missing (Food ex_store) (concat (map foods ex_lunch_missing)) = Some i"
    and p: "post_entries no_faults 7 1000 ex_lunch_missing None ex_store =
              (Inl (ReferenceNotFound i), ex_store)"
    by blast
  have "first_missing (Food ex_store) (concat (map foods ex_lunch_missing)) = Some 9"
    by (simp add: first_missing_def ex_lunch_missing_def ex_store_def)
  with i p show ?thesis by simp
qed

section \<open>Nutrition entries: totals\<close>




section \<open>Goal progress: auxiliary facts\<close>

lemmas handler_defs =
  update_progress_def Let_def checkMilestoneCompletion_def checkGoalCompletion_def
  handleGoalCompletion_def notification_save_def goal_save_def createMilestoneNotification_def
  calculateGoalProgress_def progressEntry_of_def Goal_findOne_def

lemma ex_found: "Goal_findOne ex_store 1 7 = Some ex_goal"
  by (simp add: Goal_findOne_def ex_store_def ex_goal_def)

lemma schema_found: "Goal_findOne schema_store 1 7 = Some schema_goal"
  by (simp add: Goal_findOne_def schema_store_def schema_goal_def)

text \<open>The loop over the milestones, as a map and a filter.\<close>

lemma forEach_fst:
  "fst (milestones_forEach now p v ms acc) =
     map (\<lambda>m. if \<not> isCompleted m
                   \<and> (case milestone.targetValue m of None \<Rightarrow> False | Some t \<Rightarrow> p < t \<and> t \<le> v)
              then m\<lparr>isCompleted := True, milestone.completedAt := Some now\<rparr> else m) ms"
  by (induction ms arbitrary: acc) (simp_all add: Let_def)

lemma forEach_snd:
  "snd (milestones_forEach now p v ms acc) =
     acc @ map (\<lambda>m. m\<lparr>isCompleted := True, milestone.completedAt := Some now\<rparr>)
            (filter (\<lambda>m. \<not> isCompleted m
                          \<and> (case milestone.targetValue m of
                                None \<Rightarrow> False | Some t \<Rightarrow> p < t \<and> t \<le> v)) ms)"
  by (induction ms arbitrary: acc) (simp_all add: Let_def)

text \<open>
  On the milestones of a document of the collection, which have no \<open>targetValue\<close>, the
  milestone check marks nothing and returns nothing.
\<close>

lemma checkMilestoneCompletion_schema:
  assumes "\<And>m. m \<in> set (milestones g) \<Longrightarrow> milestone.targetValue m = None"
  shows "checkMilestoneCompletion now g p v = (g, [])"
proof -
  have "map (\<lambda>m. if \<not> isCompleted m
                   \<and> (case milestone.targetValue m of None \<Rightarrow> False | Some t \<Rightarrow> p < t \<and> t \<le> v)
              then m\<lparr>isCompleted := True, milestone.completedAt := Some now\<rparr> else m)
          (milestones g) = milestones g"
    using assms by (simp add: map_idI)
  moreover have "filter (\<lambda>m. \<not> isCompleted m
                          \<and> (case milestone.targetValue m of
                                None \<Rightarrow> False | Some t \<Rightarrow> p < t \<and> t \<le> v)) (milestones g) = []"
    using assms by (simp add: filter_empty_conv)
  ultimately show ?thesis
    by (simp add: checkMilestoneCompletion_def Let_def prod_eq_iff forEach_fst forEach_snd)
qed

text \<open>The loop never takes \<open>isCompleted\<close> back: a milestone is kept as it is or marked.\<close>

lemma forEach_isCompleted:
  "map isCompleted (fst (milestones_forEach now p v ms acc)) =
     map (\<lambda>m. isCompleted m
               \<or> (case milestone.targetValue m of None \<Rightarrow> False | Some t \<Rightarrow> p < t \<and> t \<le> v)) ms"
  by (simp add: forEach_fst)

text \<open>The percentage is 0 for a target of 0 and never exceeds 100.\<close>

lemma calculateGoalProgress_zero: "goal.targetValue g = 0 \<Longrightarrow> calculateGoalProgress g = 0"
  by (simp add: calculateGoalProgress_def)

lemma calculateGoalProgress_le: "calculateGoalProgress g \<le> 100"
  by (simp add: calculateGoalProgress_def)

lemma notify_milestones_Goal: "Goal (snd (notify_milestones fl g ms db)) = Goal db"
  by (induction ms arbitrary: db)
     (auto simp: createMilestoneNotification_def notification_save_def split: option.splits)

lemma findOne_Some:
  "Goal_findOne db gid uid = Some g \<Longrightarrow> oid g = gid \<and> Goal db gid = Some g \<and> goal.user g = uid"
  by (auto simp: Goal_findOne_def split: option.splits if_splits)

text \<open>What a successful update returns and stores.\<close>

lemma update_progress_success:
  assumes f: "Goal_findOne db gid uid = Some g"
      and u: "update_progress fl now uid gid v ns d db = (Inr out, db')"
  shows "status g = Active"
    and "res_goal out =
           g\<lparr>currentValue := v,
             progressHistory :=
               map_option (\<lambda>history. history @ [progressEntry_of now g v ns d])
                 (progressHistory g),
             milestones := fst (milestones_forEach now (currentValue g) v (milestones g) []),
             status := (if goal.targetValue g \<le> v then Completed else Active),
             goal.completedAt := (if goal.targetValue g \<le> v then Some now else goal.completedAt g)\<rparr>"
    and "completedMilestones out = snd (milestones_forEach now (currentValue g) v (milestones g) [])"
    and "isGoalCompleted out = (goal.targetValue g \<le> v)"
    and "progressPercentage out = calculateGoalProgress (res_goal out)"
    and "Goal db' = (Goal db)(gid \<mapsto> res_goal out)"
    and "progressHistory g \<noteq> None"
  using f u findOne_Some[OF f]
  by (auto simp: update_progress_def Let_def checkMilestoneCompletion_def checkGoalCompletion_def
        handleGoalCompletion_def notification_save_def goal_save_def notify_milestones_Goal
      split: option.splits if_splits)

text \<open>The handler on a goal that is not found, not active, or active.\<close>

lemma update_progress_not_active:
  "Goal_findOne db gid uid = Some g \<Longrightarrow> status g \<noteq> Active \<Longrightarrow>
   update_progress fl now uid gid v ns d db = (Inl InvalidState, db)"
  by (simp add: update_progress_def)

lemma update_progress_not_found:
  "Goal_findOne db gid uid = None \<Longrightarrow>
   update_progress fl now uid gid v ns d db = (Inl NotFound, db)"
  by (simp add: update_progress_def)

text \<open>
  An active goal without the property \<open>progressHistory\<close>, as every goal of the collection
  is: whatever the value, the notes, the date and the saves, the update is answered with
  the 500 and the store is left as it was.
\<close>

lemma update_progress_no_history:
  "Goal_findOne db gid uid = Some g \<Longrightarrow> status g = Active \<Longrightarrow> progressHistory g = None \<Longrightarrow>
   update_progress fl now uid gid v ns d db = (Inl ServerError, db)"
  by (simp add: update_progress_def)

lemma update_progress_active:
  assumes f: "Goal_findOne db gid uid = Some g" and a: "status g = Active"
      and h: "progressHistory g = Some history"
  shows "update_progress fl now uid gid v ns d db =
     (case (if goal.targetValue g \<le> v then handleGoalCompletion fl (saved_goal now g v ns d) db
            else Some db) of
        None \<Rightarrow> (Inl ServerError, db)
      | Some db1 \<Rightarrow>
          (case goal_save fl (saved_goal now g v ns d) db1 of
             None \<Rightarrow> (Inl ServerError, db1)
           | Some db2 \<Rightarrow>
               (let r3 = notify_milestones fl (saved_goal now g v ns d)
                           (snd (milestones_forEach now (currentValue g) v (milestones g) [])) db2
                in if \<not> fst r3 then (Inl ServerError, snd r3)
                   else (Inr \<lparr>res_goal = saved_goal now g v ns d,
                              progressPercentage = calculateGoalProgress (saved_goal now g v ns d),
                              completedMilestones =
                                snd (milestones_forEach now (currentValue g) v (milestones g) []),
                              isGoalCompleted = (goal.targetValue g \<le> v)\<rparr>, snd r3))))"
proof (cases "goal.targetValue g \<le> v")
  case True
  with f a h show ?thesis
    by (simp add: update_progress_def Let_def checkMilestoneCompletion_def checkGoalCompletion_def
        saved_goal_def cong: option.case_cong if_cong)
next
  case False
  with f a h show ?thesis
    by (simp add: update_progress_def Let_def checkMilestoneCompletion_def checkGoalCompletion_def
        saved_goal_def cong: option.case_cong if_cong)
qed

lemma saved_goal_fields:
  "oid (saved_goal now g v ns d) = oid g"
  "goal.user (saved_goal now g v ns d) = goal.user g"
  "goal.targetValue (saved_goal now g v ns d) = goal.targetValue g"
  "currentValue (saved_goal now g v ns d) = v"
  "progressHistory (saved_goal now g v ns d) =
     map_option (\<lambda>history. history @ [progressEntry_of now g v ns d]) (progressHistory g)"
  "milestones (saved_goal now g v ns d) =
     map (\<lambda>m. if \<not> isCompleted m
                   \<and> (case milestone.targetValue m of
                         None \<Rightarrow> False | Some t \<Rightarrow> currentValue g < t \<and> t \<le> v)
              then m\<lparr>isCompleted := True, milestone.completedAt := Some now\<rparr> else m)
         (milestones g)"
  "status g = Active \<Longrightarrow>
     status (saved_goal now g v ns d) = (if goal.targetValue g \<le> v then Completed else Active)"
  "status g = Active \<Longrightarrow>
     goal.completedAt (saved_goal now g v ns d) =
       (if goal.targetValue g \<le> v then Some now else goal.completedAt g)"
  by (simp_all add: saved_goal_def Let_def forEach_fst)

lemma update_progress_Goal:
  assumes f: "Goal_findOne db gid uid = Some g" and a: "status g = Active"
  shows "Goal (snd (update_progress fl now uid gid v ns d db)) = Goal db
       \<or> Goal (snd (update_progress fl now uid gid v ns d db)) =
           (Goal db)(gid \<mapsto> saved_goal now g v ns d)"
proof (cases "progressHistory g")
  case None
  from update_progress_no_history[OF f a None] show ?thesis by simp
next
  case (Some history)
  from findOne_Some[OF f] show ?thesis
    by (auto simp: update_progress_active[OF f a Some] handleGoalCompletion_def
          notification_save_def goal_save_def Let_def notify_milestones_Goal saved_goal_fields
        split: option.splits)
qed

text \<open>
  The notifications are not best effort. On a goal that has a progress history, an update
  that reaches the target and whose completion notification is rejected is answered with
  the 500 and nothing is saved; an update that crosses a milestone and whose milestone
  notification is rejected is answered with the 500 after the goal was saved.
\<close>

lemma update_progress_completion_rejected:
  assumes f: "Goal_findOne db gid uid = Some g" and a: "status g = Active"
      and h: "progressHistory g = Some history"
      and c: "goal.targetValue g \<le> v"
      and r: "\<And>n. notification.type n = ''achievement'' \<Longrightarrow> notification_save_rejects fl n"
  shows "update_progress fl now uid gid v ns d db = (Inl ServerError, db)"
  using c r by (simp add: update_progress_active[OF f a h] handleGoalCompletion_def
      notification_save_def)

lemma update_progress_milestone_rejected:
  assumes f: "Goal_findOne db gid uid = Some g" and a: "status g = Active"
      and h: "progressHistory g = Some history"
      and c: "\<not> goal.targetValue g \<le> v"
      and m: "snd (milestones_forEach now (currentValue g) v (milestones g) []) \<noteq> []"
      and s: "\<not> goal_save_rejects fl (saved_goal now g v ns d)"
      and r: "\<And>n. notification.type n = ''milestone'' \<Longrightarrow> notification_save_rejects fl n"
  shows "update_progress fl now uid gid v ns d db =
           (Inl ServerError, db\<lparr>Goal := (Goal db)(gid \<mapsto> saved_goal now g v ns d)\<rparr>)"
proof -
  from m obtain x xs
    where x: "snd (milestones_forEach now (currentValue g) v (milestones g) []) = x # xs"
    by (cases "snd (milestones_forEach now (currentValue g) v (milestones g) [])") auto
  from findOne_Some[OF f] have o: "oid (saved_goal now g v ns d) = gid"
    by (simp add: saved_goal_fields)
  from c s r o show ?thesis
    by (simp add: update_progress_active[OF f a h] goal_save_def x
        createMilestoneNotification_def notification_save_def)
qed



section \<open>Goal progress: milestone crossing\<close>

text \<open>
  C2, on a goal of the collection. The goal has the value 0 and a milestone at 50, and the
  update sets the value 60 for an observation dated 5. The update is answered with the 500
  and the store is left as it was: the milestone is not marked and nothing is reported as
  newly completed. The milestone check alone, applied to the goal with its new value,
  marks nothing either, since it compares with the property \<open>targetValue\<close>, which the
  milestone does not have.
\<close>

theorem C2_schema_goal_crossing:
  "update_progress schema_faults 9 7 1 60 None (Some 5) schema_store =
     (Inl ServerError, schema_store)
   \<and> checkMilestoneCompletion 9 (schema_goal\<lparr>currentValue := 60\<rparr>) 0 60 =
     (schema_goal\<lparr>currentValue := 60\<rparr>, [])"
proof -
  have "status schema_goal = Active" "progressHistory schema_goal = None"
    by (simp_all add: schema_goal_def)
  from update_progress_no_history[OF schema_found this]
  have 1: "update_progress schema_faults 9 7 1 60 None (Some 5) schema_store =
             (Inl ServerError, schema_store)" .
  have 2: "checkMilestoneCompletion 9 (schema_goal\<lparr>currentValue := 60\<rparr>) 0 60 =
             (schema_goal\<lparr>currentValue := 60\<rparr>, [])"
    by (rule checkMilestoneCompletion_schema) (auto simp: schema_goal_def)
  from 1 2 show ?thesis by simp
qed

section \<open>Goal progress: history and current value\<close>


section \<open>Goal progress: the percentage\<close>


section \<open>Goal progress: a goal that is not active\<close>

text \<open>
  C7. A progress update of a goal whose status is not \<open>active\<close> is answered with the 400
  \<open>Cannot update progress on inactive goal\<close> and the store is left as it was: no history
  entry, no new current value, no milestone and no status written.
\<close>

theorem C7_inactive_goal:
  assumes "Goal_findOne db gid uid = Some g" and "status g \<noteq> Active"
  shows "update_progress fl now uid gid v ns d db = (Inl InvalidState, db)"
  using assms by (simp add: update_progress_def)

text \<open>Witness for C7: an update to 120 of the completed example goal.\<close>

theorem C7_inactive_goal_witness:
  "update_progress no_faults 9 7 1 120 None None ex_store_completed =
     (Inl InvalidState, ex_store_completed)"
proof -
  have f: "Goal_findOne ex_store_completed 1 7 = Some (ex_goal\<lparr>currentValue := 100, status := Completed\<rparr>)"
    by (simp add: Goal_findOne_def ex_store_completed_def ex_store_def ex_goal_def)
  have s: "status (ex_goal\<lparr>currentValue := 100, status := Completed\<rparr>) \<noteq> Active"
    by simp
  show ?thesis
    by (rule C7_inactive_goal[OF f s])
qed

section \<open>Goal progress: milestones stay completed\<close>

text \<open>
  C8, on a goal of the collection. The update with the goal's current value 0 is made
  twice. Both calls are answered with the 500 and the store after them is the store
  before them, where the goal has no progress history: no record is appended, by the
  first call or by the second.
\<close>

theorem C8_schema_goal_repeat:
  "fst (update_progress schema_faults 9 7 1 0 None None schema_store) = Inl ServerError
   \<and> update_progress schema_faults 10 7 1 0 None None
        (snd (update_progress schema_faults 9 7 1 0 None None schema_store)) =
     (Inl ServerError, schema_store)
   \<and> map_option progressHistory (Goal schema_store 1) = Some None"
proof -
  have "status schema_goal = Active" "progressHistory schema_goal = None"
    by (simp_all add: schema_goal_def)
  note n = update_progress_no_history[OF schema_found this]
  have 1: "update_progress schema_faults 9 7 1 0 None None schema_store =
             (Inl ServerError, schema_store)"
    by (rule n)
  have 2: "update_progress schema_faults 10 7 1 0 None None schema_store =
             (Inl ServerError, schema_store)"
    by (rule n)
  have 3: "map_option progressHistory (Goal schema_store 1) = Some None"
    by (simp add: schema_store_def schema_goal_def)
  show ?thesis
    unfolding 1 snd_conv fst_conv 2 using 3 by simp
qed

section \<open>Goal progress: the status\<close>

text \<open>
  C9. Whatever an update answers, every goal of the store keeps its status, except that the
  goal of the request can go from \<open>active\<close> to \<open>completed\<close>, and then the new value has
  reached its target and \<open>completedAt\<close> is the time of the update; no goal appears or
  disappears. An update of a goal that is not active (completed and cancelled among them)
  changes nothing, so a goal is completed by this path at most once. In a successful update
  the completion check is applied to the goal that the milestone check returns.
\<close>

theorem C9_status_transition:
  assumes "update_progress fl now uid gid v ns d db = (r, db')"
  shows "(\<forall>k. rel_option
               (\<lambda>g g'. status g' = status g
                      \<or> (k = gid \<and> status g = Active \<and> status g' = Completed
                          \<and> goal.targetValue g \<le> v \<and> goal.completedAt g' = Some now))
               (Goal db k) (Goal db' k))
       \<and> (\<forall>g. Goal_findOne db gid uid = Some g \<and> status g \<noteq> Active \<longrightarrow>
              r = Inl InvalidState \<and> db' = db)
       \<and> (\<forall>g out. Goal_findOne db gid uid = Some g \<and> r = Inr out \<longrightarrow>
              res_goal out =
                (let g3 = fst (checkMilestoneCompletion now
                                (g\<lparr>currentValue := v,
                                   progressHistory :=
                                     map_option (\<lambda>history. history @ [progressEntry_of now g v ns d])
                                       (progressHistory g)\<rparr>)
                                (currentValue g) v)
                 in if checkGoalCompletion g3
                    then g3\<lparr>status := Completed, goal.completedAt := Some now\<rparr> else g3)
              \<and> isGoalCompleted out = (goal.targetValue g \<le> v))"
proof (intro conjI allI impI)
  fix k
  let ?R = "\<lambda>g g'. status g' = status g
                      \<or> (k = gid \<and> status g = Active \<and> status g' = Completed
                          \<and> goal.targetValue g \<le> v \<and> goal.completedAt g' = Some now)"
  have same: "rel_option ?R (Goal db k) (Goal db k)"
    by (rule option.rel_refl) simp
  show "rel_option ?R (Goal db k) (Goal db' k)"
  proof (cases "Goal_findOne db gid uid")
    case None
    with assms have "db' = db" by (simp add: update_progress_not_found)
    with same show ?thesis by simp
  next
    case (Some g)
    show ?thesis
    proof (cases "status g = Active")
      case False
      with Some assms have "db' = db" by (simp add: update_progress_not_active)
      with same show ?thesis by simp
    next
      case True
      from assms have db': "db' = snd (update_progress fl now uid gid v ns d db)" by simp
      from update_progress_Goal[OF Some True, of fl now v ns d]
      show ?thesis
      proof
        assume "Goal (snd (update_progress fl now uid gid v ns d db)) = Goal db"
        with same db' show ?thesis by simp
      next
        assume u: "Goal (snd (update_progress fl now uid gid v ns d db)) =
                     (Goal db)(gid \<mapsto> saved_goal now g v ns d)"
        show ?thesis
        proof (cases "k = gid")
          case False
          with u same db' show ?thesis by simp
        next
          case k: True
          from findOne_Some[OF Some] have "Goal db gid = Some g" by simp
          with u k db' True show ?thesis
            by (simp add: saved_goal_fields)
        qed
      qed
    qed
  qed
next
  fix g
  assume "Goal_findOne db gid uid = Some g \<and> status g \<noteq> Active"
  with assms show "r = Inl InvalidState" and "db' = db"
    by (simp_all add: update_progress_not_active)
next
  fix g out
  assume h: "Goal_findOne db gid uid = Some g \<and> r = Inr out"
  with assms have u: "update_progress fl now uid gid v ns d db = (Inr out, db')" by simp
  from h have f: "Goal_findOne db gid uid = Some g" by simp
  from update_progress_success(1,2,4)[OF f u]
  show "res_goal out =
          (let g3 = fst (checkMilestoneCompletion now
                          (g\<lparr>currentValue := v,
                             progressHistory :=
                               map_option (\<lambda>history. history @ [progressEntry_of now g v ns d])
                                 (progressHistory g)\<rparr>)
                          (currentValue g) v)
           in if checkGoalCompletion g3
              then g3\<lparr>status := Completed, goal.completedAt := Some now\<rparr> else g3)"
    and "isGoalCompleted out = (goal.targetValue g \<le> v)"
    by (auto simp: checkMilestoneCompletion_def checkGoalCompletion_def Let_def)
qed

text \<open>
  Witness for C9: the update of the example goal to 150 at time 9 completes it and both its
  milestones; an update of the completed goal is rejected.
\<close>

theorem C9_status_transition_witness:
  "map_option status (Goal (snd (update_progress no_faults 9 7 1 150 None None ex_store)) 1) =
     Some Completed
   \<and> map_option goal.completedAt (Goal (snd (update_progress no_faults 9 7 1 150 None None ex_store)) 1) =
     Some (Some 9)
   \<and> map isCompleted
        (milestones (res_goal (projr (fst (update_progress no_faults 9 7 1 150 None None ex_store))))) =
     [True, True]
   \<and> update_progress no_faults 9 7 1 120 None None ex_store_completed =
     (Inl InvalidState, ex_store_completed)"
proof -
  let ?r = "update_progress no_faults 9 7 1 150 None None ex_store"
  let ?c = "update_progress no_faults 9 7 1 120 None None ex_store_completed"
  have "isl (fst ?r) = False"
    by (simp add: handler_defs no_faults_def ex_store_def ex_goal_def)
  then have u: "?r = (Inr (projr (fst ?r)), snd ?r)"
    by (cases ?r, cases "fst ?r") simp_all
  have c: "?c = (fst ?c, snd ?c)" by simp
  have f: "Goal_findOne ex_store_completed 1 7 =
             Some (ex_goal\<lparr>currentValue := 100, status := Completed\<rparr>)"
    by (simp add: Goal_findOne_def ex_store_completed_def ex_store_def ex_goal_def)
  have g: "Goal ex_store 1 = Some ex_goal"
    by (simp add: ex_store_def)
  note t = C9_status_transition[OF u]
  note t' = C9_status_transition[OF c]
  from t[THEN conjunct1, rule_format, of 1] g
  obtain g' where g': "Goal (snd ?r) 1 = Some g'"
    and s: "status g' = status ex_goal \<or> (status g' = Completed \<and> goal.completedAt g' = Some 9)"
    by (cases "Goal (snd ?r) 1") auto
  moreover have "status ex_goal = Active" "status g' \<noteq> Active"
    using g' by (auto simp: handler_defs no_faults_def ex_store_def ex_goal_def)
  ultimately have 1: "status g' = Completed \<and> goal.completedAt g' = Some 9"
    by auto
  from t[THEN conjunct2, THEN conjunct2, rule_format, of ex_goal "projr (fst ?r)"] ex_found u
  have 2: "map isCompleted (milestones (res_goal (projr (fst ?r)))) = [True, True]"
    by (simp add: ex_goal_def checkMilestoneCompletion_def checkGoalCompletion_def Let_def)
  from t'[THEN conjunct2, THEN conjunct1, rule_format,
          of "ex_goal\<lparr>currentValue := 100, status := Completed\<rparr>"] f
  have 3: "?c = (Inl InvalidState, ex_store_completed)"
    by (simp add: prod_eq_iff)
  from g' 1 2 3 show ?thesis
    by simp
qed

section \<open>Goal progress: a notification that cannot be saved\<close>


end
